theory Spec2Isabelle
  imports Main "HOL-Library.Word"
begin

unbundle bit_operations_syntax

section \<open>Globals.hpp: model specification versions\<close>

text \<open>
  The constants of namespace CoreML in \<^verbatim>\<open>mlmodel/src/Globals.hpp\<close>. Each is a
  \<^verbatim>\<open>static const int32_t\<close>, so each is a 32-bit word that is read as a signed
  value with \<open>sint\<close>.
\<close>

type_synonym int32_t = "32 word"

definition MLMODEL_SPECIFICATION_VERSION_IOS11 :: int32_t where
  "MLMODEL_SPECIFICATION_VERSION_IOS11 = 1"

definition MLMODEL_SPECIFICATION_VERSION_IOS11_2 :: int32_t where
  "MLMODEL_SPECIFICATION_VERSION_IOS11_2 = 2"

definition MLMODEL_SPECIFICATION_VERSION_IOS12 :: int32_t where
  "MLMODEL_SPECIFICATION_VERSION_IOS12 = 3"

definition MLMODEL_SPECIFICATION_VERSION_IOS13 :: int32_t where
  "MLMODEL_SPECIFICATION_VERSION_IOS13 = 4"

definition MLMODEL_SPECIFICATION_VERSION_IOS14 :: int32_t where
  "MLMODEL_SPECIFICATION_VERSION_IOS14 = 5"

definition MLMODEL_SPECIFICATION_VERSION_IOS15 :: int32_t where
  "MLMODEL_SPECIFICATION_VERSION_IOS15 = 6"

definition MLMODEL_SPECIFICATION_VERSION_IOS16 :: int32_t where
  "MLMODEL_SPECIFICATION_VERSION_IOS16 = 7"

definition MLMODEL_SPECIFICATION_VERSION_IOS17 :: int32_t where
  "MLMODEL_SPECIFICATION_VERSION_IOS17 = 8"

definition MLMODEL_SPECIFICATION_VERSION_IOS18 :: int32_t where
  "MLMODEL_SPECIFICATION_VERSION_IOS18 = 9"

definition MLMODEL_SPECIFICATION_VERSION_IOS26 :: int32_t where
  "MLMODEL_SPECIFICATION_VERSION_IOS26 = 10"

definition MLMODEL_SPECIFICATION_VERSION_NEWEST :: int32_t where
  "MLMODEL_SPECIFICATION_VERSION_NEWEST = MLMODEL_SPECIFICATION_VERSION_IOS26"

text \<open>
  The object-like macro \<^verbatim>\<open>#define MLMODEL_SPECIFICATION_VERSION
  MLMODEL_SPECIFICATION_VERSION_NEWEST\<close>: every use is replaced by the constant.
\<close>

definition MLMODEL_SPECIFICATION_VERSION :: int32_t where
  "MLMODEL_SPECIFICATION_VERSION = MLMODEL_SPECIFICATION_VERSION_NEWEST"

text \<open>The ten per-release constants in the order the header declares them.\<close>

definition specification_versions :: "int32_t list" where
  "specification_versions =
     [MLMODEL_SPECIFICATION_VERSION_IOS11, MLMODEL_SPECIFICATION_VERSION_IOS11_2,
      MLMODEL_SPECIFICATION_VERSION_IOS12, MLMODEL_SPECIFICATION_VERSION_IOS13,
      MLMODEL_SPECIFICATION_VERSION_IOS14, MLMODEL_SPECIFICATION_VERSION_IOS15,
      MLMODEL_SPECIFICATION_VERSION_IOS16, MLMODEL_SPECIFICATION_VERSION_IOS17,
      MLMODEL_SPECIFICATION_VERSION_IOS18, MLMODEL_SPECIFICATION_VERSION_IOS26]"

section \<open>MLModelTests.hpp: the list of tests\<close>

text \<open>
  The header is an X-macro list: it defines the one-parameter macro MLMODEL_TEST,
  invokes it once per test and undefines it again. What an inclusion produces depends on
  the macros the including file has defined beforehand, so the header is embedded as what
  it is, a preprocessor program, and run by a model of the preprocessor.

  The model covers what the header uses and what an including file can bring to bear on
  it: object-like and function-like macros, the expansion of a token sequence with
  arguments expanded before they are put in and the result scanned again, and the
  directives \<^verbatim>\<open>#ifdef\<close>, \<^verbatim>\<open>#ifndef\<close>, \<^verbatim>\<open>#else\<close>, \<^verbatim>\<open>#endif\<close>, \<^verbatim>\<open>#define\<close> and
  \<^verbatim>\<open>#undef\<close>. The operators \<^verbatim>\<open>#\<close> and \<^verbatim>\<open>##\<close>, variadic macros, \<^verbatim>\<open>#if\<close> with an
  expression and \<^verbatim>\<open>#include\<close> are left out: the header uses none of them.
\<close>

subsection \<open>Macros and their expansion\<close>

text \<open>A preprocessing token, by its spelling.\<close>

type_synonym pp_token = string

text \<open>
  A macro is object-like (a replacement list) or function-like (parameter names and a
  replacement list). The environment maps the names that are defined to their macros.
\<close>

datatype macro = Object_like "pp_token list" | Function_like "pp_token list" "pp_token list"

type_synonym macro_env = "pp_token \<rightharpoonup> macro"

text \<open>
  What the preprocessor reports as an error. OutOfFuel belongs to the model only: the
  expansion below counts its replacements down from a bound.
\<close>

datatype cpp_error = OutOfFuel | UnterminatedArguments | WrongArgumentCount | UnbalancedConditional

text \<open>
  During expansion a token carries the names of the macros whose replacement produced it;
  it is never replaced as one of them again, which is what keeps a macro that mentions
  itself from expanding forever.
\<close>

type_synonym hidden_token = "pp_token \<times> pp_token list"

text \<open>Only identifiers name macros; punctuators and numbers never do.\<close>

definition identifier_start :: "char \<Rightarrow> bool" where
  "identifier_start c = (c \<in> set ''abcdefghijklmnopqrstuvwxyzABCDEFGHIJKLMNOPQRSTUVWXYZ_'')"

definition identifier_char :: "char \<Rightarrow> bool" where
  "identifier_char c = (identifier_start c \<or> c \<in> set ''0123456789'')"

definition is_identifier :: "pp_token \<Rightarrow> bool" where
  "is_identifier t =
     (case t of [] \<Rightarrow> False | c # cs \<Rightarrow> identifier_start c \<and> list_all identifier_char cs)"

text \<open>
  The arguments of an invocation, read from the tokens after its opening parenthesis:
  they end at the matching closing parenthesis and are separated by the commas outside
  inner parentheses. The result is the arguments, the names carried by the closing
  parenthesis and the tokens after it; there is none if the parenthesis is never closed.
\<close>

fun collect_args ::
  "nat \<Rightarrow> hidden_token list \<Rightarrow> hidden_token list list \<Rightarrow> hidden_token list
     \<Rightarrow> (hidden_token list list \<times> pp_token list \<times> hidden_token list) option" where
  "collect_args depth cur done [] = None"
| "collect_args depth cur done ((t, hs) # rest) =
     (if t = '')'' then
        (case depth of
           0 \<Rightarrow> Some (rev (rev cur # done), hs, rest)
         | Suc d \<Rightarrow> collect_args d ((t, hs) # cur) done rest)
      else if t = ''('' then collect_args (Suc depth) ((t, hs) # cur) done rest
      else if t = '','' \<and> depth = 0 then collect_args 0 [] (rev cur # done) rest
      else collect_args depth ((t, hs) # cur) done rest)"

text \<open>
  A replacement list with its parameters replaced by the (already expanded) arguments.
\<close>

fun substitute :: "(pp_token \<times> hidden_token list) list \<Rightarrow> pp_token list \<Rightarrow> hidden_token list" where
  "substitute bindings [] = []"
| "substitute bindings (t # ts) =
     (case map_of bindings t of
        Some actual \<Rightarrow> actual @ substitute bindings ts
      | None \<Rightarrow> (t, []) # substitute bindings ts)"

text \<open>Every token of a replacement carries the names of the macros that produced it.\<close>

definition hide :: "pp_token list \<Rightarrow> hidden_token list \<Rightarrow> hidden_token list" where
  "hide names ts = map (\<lambda>(t, hs). (t, names @ hs)) ts"

text \<open>
  An invocation has one argument per parameter; a macro without parameters is invoked
  with empty parentheses.
\<close>

definition arity_ok :: "pp_token list \<Rightarrow> hidden_token list list \<Rightarrow> bool" where
  "arity_ok params actuals =
     (length actuals = length params \<or> (params = [] \<and> actuals = [[]]))"

definition emit ::
  "hidden_token \<Rightarrow> cpp_error + hidden_token list \<Rightarrow> cpp_error + hidden_token list" where
  "emit x r = (case r of Inl e \<Rightarrow> Inl e | Inr ts \<Rightarrow> Inr (x # ts))"

fun collect :: "(cpp_error + 'a) list \<Rightarrow> cpp_error + 'a list" where
  "collect [] = Inr []"
| "collect (Inl e # rs) = Inl e"
| "collect (Inr x # rs) = (case collect rs of Inl e \<Rightarrow> Inl e | Inr xs \<Rightarrow> Inr (x # xs))"

text \<open>
  Macro expansion of a token sequence, left to right. A token that names a macro it does
  not carry is replaced: an object-like macro by its replacement list; a function-like
  macro, if an opening parenthesis follows, by its replacement list with each parameter
  replaced by the fully expanded argument. The replacement is then scanned again together
  with the tokens that follow it. Any other token is passed on. \<open>fuel\<close> bounds the
  number of replacements made one after the other.
\<close>

fun expand :: "macro_env \<Rightarrow> nat \<Rightarrow> hidden_token list \<Rightarrow> cpp_error + hidden_token list" where
  "expand env fuel [] = Inr []"
| "expand env fuel ((t, hs) # rest) =
     (case (if is_identifier t \<and> t \<notin> set hs then env t else None) of
        None \<Rightarrow> emit (t, hs) (expand env fuel rest)
      | Some (Object_like body) \<Rightarrow>
          (case fuel of
             0 \<Rightarrow> Inl OutOfFuel
           | Suc f \<Rightarrow> expand env f (hide (t # hs) (substitute [] body) @ rest))
      | Some (Function_like params body) \<Rightarrow>
          (case rest of
             [] \<Rightarrow> Inr [(t, hs)]
           | (p, phs) # rest' \<Rightarrow>
               if p \<noteq> ''('' then emit (t, hs) (expand env fuel rest)
               else
                 (case collect_args 0 [] [] rest' of
                    None \<Rightarrow> Inl UnterminatedArguments
                  | Some (actuals, hs', rest'') \<Rightarrow>
                      if \<not> arity_ok params actuals then Inl WrongArgumentCount
                      else
                        (case fuel of
                           0 \<Rightarrow> Inl OutOfFuel
                         | Suc f \<Rightarrow>
                             (case collect (map (expand env f) actuals) of
                                Inl e \<Rightarrow> Inl e
                              | Inr expanded \<Rightarrow>
                                  expand env f
                                    (hide (t # filter (\<lambda>n. n \<in> set hs') hs)
                                       (substitute (zip params expanded) body) @ rest''))))))"

text \<open>The expansion of source tokens, which carry no names yet, as plain tokens.\<close>

definition expansion :: "macro_env \<Rightarrow> nat \<Rightarrow> pp_token list \<Rightarrow> cpp_error + pp_token list" where
  "expansion env fuel ts =
     (case expand env fuel (map (\<lambda>t. (t, [])) ts) of
        Inl e \<Rightarrow> Inl e
      | Inr out \<Rightarrow> Inr (map fst out))"

subsection \<open>Directives\<close>

text \<open>
  A file after comments are removed: directive lines, and between them the tokens of the
  text lines (\<open>Tokens\<close> holds a whole run of text lines, since an invocation may
  extend over several).
\<close>

datatype directive =
    Ifdef pp_token | Ifndef pp_token | Else | Endif
  | Define pp_token macro | Undef pp_token
  | Tokens "pp_token list"

text \<open>
  The state of the preprocessor: the macros defined, the open conditionals (for each,
  whether its current group is taken and whether its \<^verbatim>\<open>#else\<close> has been seen) and
  the tokens put out so far.
\<close>

record pp_state =
  macros :: macro_env
  conditions :: "(bool \<times> bool) list"
  emitted :: "pp_token list"

text \<open>Lines are processed only where every open conditional is in a taken group.\<close>

definition active :: "pp_state \<Rightarrow> bool" where
  "active st = list_all fst (conditions st)"

text \<open>
  One directive. A \<^verbatim>\<open>#define\<close> of a name that is defined already replaces the
  earlier definition (compilers warn and go on).
\<close>

fun directive_step :: "nat \<Rightarrow> directive \<Rightarrow> pp_state \<Rightarrow> cpp_error + pp_state" where
  "directive_step fuel (Ifdef n) st =
     Inr (st\<lparr>conditions := (macros st n \<noteq> None, False) # conditions st\<rparr>)"
| "directive_step fuel (Ifndef n) st =
     Inr (st\<lparr>conditions := (macros st n = None, False) # conditions st\<rparr>)"
| "directive_step fuel Else st =
     (case conditions st of
        [] \<Rightarrow> Inl UnbalancedConditional
      | (taken, seen_else) # cs \<Rightarrow>
          if seen_else then Inl UnbalancedConditional
          else Inr (st\<lparr>conditions := (\<not> taken, True) # cs\<rparr>))"
| "directive_step fuel Endif st =
     (case conditions st of
        [] \<Rightarrow> Inl UnbalancedConditional
      | c # cs \<Rightarrow> Inr (st\<lparr>conditions := cs\<rparr>))"
| "directive_step fuel (Define n m) st =
     (if active st then Inr (st\<lparr>macros := (macros st)(n \<mapsto> m)\<rparr>) else Inr st)"
| "directive_step fuel (Undef n) st =
     (if active st then Inr (st\<lparr>macros := (macros st)(n := None)\<rparr>) else Inr st)"
| "directive_step fuel (Tokens ts) st =
     (if active st then
        (case expansion (macros st) fuel ts of
           Inl e \<Rightarrow> Inl e
         | Inr out \<Rightarrow> Inr (st\<lparr>emitted := emitted st @ out\<rparr>))
      else Inr st)"

text \<open>A file, directive by directive; at its end no conditional may be open.\<close>

fun preprocess :: "nat \<Rightarrow> directive list \<Rightarrow> pp_state \<Rightarrow> cpp_error + pp_state" where
  "preprocess fuel [] st = (if conditions st = [] then Inr st else Inl UnbalancedConditional)"
| "preprocess fuel (d # ds) st =
     (case directive_step fuel d st of
        Inl e \<Rightarrow> Inl e
      | Inr st' \<Rightarrow> preprocess fuel ds st')"

text \<open>
  Including a file where the macros \<open>env\<close> are defined: the tokens it puts out and the
  macros defined afterwards.
\<close>

definition include_file ::
  "nat \<Rightarrow> directive list \<Rightarrow> macro_env \<Rightarrow> cpp_error + pp_token list \<times> macro_env" where
  "include_file fuel file env =
     (case preprocess fuel file \<lparr>macros = env, conditions = [], emitted = []\<rparr> of
        Inl e \<Rightarrow> Inl e
      | Inr st \<Rightarrow> Inr (emitted st, macros st))"

subsection \<open>The header\<close>

text \<open>Line 2: \<^verbatim>\<open>#define MLMODEL_DECLARE_TEST(x) int x();\<close>\<close>

definition DECLARE_TEST_default :: macro where
  "DECLARE_TEST_default = Function_like [''x''] [''int'', ''x'', ''('', '')'', '';'']"

text \<open>Line 6: \<^verbatim>\<open>#define MLMODEL_TEST(x) MLMODEL_RUN_TEST(x)\<close>\<close>

definition TEST_runs :: macro where
  "TEST_runs = Function_like [''x''] [''MLMODEL_RUN_TEST'', ''('', ''x'', '')'']"

text \<open>Line 8: \<^verbatim>\<open>#define MLMODEL_TEST(x) MLMODEL_DECLARE_TEST(x)\<close>\<close>

definition TEST_declares :: macro where
  "TEST_declares = Function_like [''x''] [''MLMODEL_DECLARE_TEST'', ''('', ''x'', '')'']"

text \<open>Lines 1 to 9 of the header.\<close>

definition header_prologue :: "directive list" where
  "header_prologue =
     [Ifndef ''MLMODEL_DECLARE_TEST'',
      Define ''MLMODEL_DECLARE_TEST'' DECLARE_TEST_default,
      Endif,
      Ifdef ''MLMODEL_RUN_TEST'',
      Define ''MLMODEL_TEST'' TEST_runs,
      Else,
      Define ''MLMODEL_TEST'' TEST_declares,
      Endif]"

text \<open>A line \<^verbatim>\<open>MLMODEL_TEST(T)\<close> of the header.\<close>

definition invocation :: "pp_token \<Rightarrow> pp_token list" where
  "invocation T = [''MLMODEL_TEST'', ''('', T, '')'']"

text \<open>The names of the 340 lines \<^verbatim>\<open>MLMODEL_TEST(name)\<close> of the header, in order.\<close>

definition test_names :: "string list" where
  "test_names =
     [''testBasicSaveLoad'', ''testLinearModelBasic'', ''testTreeEnsembleBasic'',
      ''testOneHotEncoderBasic'', ''testLargeModel'', ''testVeryLargeModel'',
      ''testOptionalInputs'', ''testFeatureDescriptions'', ''testNNValidatorLoop'',
      ''testNNValidatorMissingInput'', ''testNNValidatorSimple'',
      ''testNNValidatorMissingOutput'', ''testNNValidatorBadInputs'',
      ''testNNValidatorBadInput'', ''testNNValidatorBadInput2'', ''testNNValidatorBadOutput'',
      ''testNNValidatorBadOutput2'', ''testNNMissingLayer'',
      ''testInnerProductDynamicQuantizationConversionParameterValidation'',
      ''testBatchedMatMulDynamicQuantizationConversionParameterValidation'', ''testRNNLayer'',
      ''testRNNLayer2'', ''testNNValidatorAllOptional'', ''testNNValidatorReshape3D'',
      ''testNNValidatorReshape4D'', ''testNNValidatorReshapeBad'', ''testNNCompilerValidation'',
      ''testNNCompilerValidationGoodProbBlob'', ''testNNCompilerValidationBadProbBlob'',
      ''testInvalidPooling'', ''testValidPooling3d'', ''testInvalidPooling3dNegativeKernelSize'',
      ''testInvalidPooling3dCostumPaddingSetForNonCustomPaddingType'',
      ''testValidGlobalPooling3d'', ''testInvalidGlobalPooling3dWrongNumberOfInputs'',
      ''testInvalidConvolutionNoPadding'', ''testInvalidConvolutionNoWeights'',
      ''testInvalidConvolutionNoBias'', ''testValidConvolution'', ''testValidDeconvolution'',
      ''testInvalidConvolution3DNegativePadding'', ''testInvalidConvolution3DNoBias'',
      ''testInvalidConvolution3DNoInputChannels'', ''testInvalidConvolution3DNoOutputChannels'',
      ''testInvalidConvolution3DNoWeights'', ''testInvalidConvolution3DNonPositiveDilation'',
      ''testInvalidConvolution3DNonPositiveGroups'',
      ''testInvalidConvolution3DNonPositiveKernelSize'',
      ''testInvalidConvolution3DNonPositiveStride'', ''testInvalidConvolution3DTwoInputs'',
      ''testInvalidConvolution3DWithOutputShape'', ''testValidConvolution3D'',
      ''testInvalidDeConvolution3DOutputShape'', ''testValidDeConvolution3D'',
      ''testInvalidEmbedding'', ''testInvalidEmbeddingBias'', ''testValidEmbedding'',
      ''testInvalidBatchnorm'', ''testValidComputeMeanVarBatchnorm'',
      ''testInvalidPaddingBorder'', ''testInvalidPaddingNoType'', ''testValidPadding'',
      ''testInvalidUpsample'', ''testInvalidUpsampleNearestNeighborsModeWithAlignCorners'',
      ''testValidUpsample'', ''testFractionalUpsample'', ''testValidUpsampleAlignCorners'',
      ''testUpsampleArgsortSpec'', ''testInvalidScaleBiasWeights'', ''testInvalidScaleWeights'',
      ''testInvalidScaleBiasLength'', ''testInvalidScaleLength'', ''testValidScale'',
      ''testValidScaleNoBias'', ''testValidCrop1'', ''testInvalidCrop1'', ''testValidCrop2'',
      ''testInvalidCrop2'', ''testInvalidCrop3'', ''testInvalidSlice'', ''testValidSlice1'',
      ''testValidSlice2'', ''testValidCustom'', ''testInvalidCustomNoName'',
      ''testInvalidCustomMultipleWeights'', ''testVisionFeatureScenePrintBasic'',
      ''testVisionFeatureObjectPrintBasic'', ''testAudioFeatureSoundPrintBasic'',
      ''testVggishPreprocessingBasic'', ''testSpecDowngrade'', ''testSpecDowngradefp16'',
      ''testSpecDowngradeFlexibleShapes'', ''testSpecDowngradeFlexibleShapes2'',
      ''testSpecDowngradePipeline'', ''testWordTaggerTransferLearningSpecIOS14'',
      ''testEmptyInputModel_downgradeToIOS18'', ''testMultiFunctionModel_downgradeToIOS18'',
      ''testBayesianProbitRegressionValidationBasic'', ''testRangeVal'', ''testRangeValDivide'',
      ''testShapeRange'', ''testSimpleNNShape'', ''testSimpleNNShapeBad'',
      ''testSimpleNNShapeBadOutput'', ''testSimple1DConv'', ''testPermuteShape'',
      ''testUpwardPass'', ''testSamePaddingConvolution'', ''testSamePaddingConvolution2'',
      ''testValidSoftmax'', ''testInvalidRank'', ''testInvalidSoftmax'', ''testInvalidSoftmax2'',
      ''testInvalidReduce'', ''testValidReduce'', ''testValidTransposeND'',
      ''testInvalidTransposeNdNoAxis'', ''testKNNValidatorNoPoints'', ''testKNNValidatorNoK'',
      ''testKNNValidatorNoDimension'', ''testKNNValidatorNoLabels'',
      ''testKNNValidatorWrongNumberOfLabels'', ''testKNNValidatorNoIndex'',
      ''testKNNValidatorLinearIndex'', ''testKNNValidatorSingleKdTreeIndex'',
      ''testKNNValidatorNoWeightingScheme'', ''testKNNValidatorNoDistanceFunction'',
      ''testInvalidDefaultOptionalValue'', ''testDefaultOptionalValueZeroIfNotSet'',
      ''testDefaultOptionalValueOnUnsupportedSpec'', ''testDefaultOptionalValueGood'',
      ''testKNNValidatorGood'', ''testEmptyKNNValidationGood'', ''testLabelTypeMismatchTest'',
      ''testNumberOfNeighborsWithDefaultValueInRange'',
      ''testNumberOfNeighborsWithDefaultValueOutOfRange'',
      ''testNumberOfNeighborsWithDefaultValueInSet'',
      ''testNumberOfNeighborsWithDefaultValueNotInSet'',
      ''testNumberOfNeighborsWithInvalidRange'', ''testNumberOfNeighborsWithInvalidSet'',
      ''testValidReorganizeData'', ''testInvalidReorganizeDataInputRank'',
      ''testInvalidReorganizeDataBlockSize'', ''testValidBranch'',
      ''testInvalidBranchOutputNotProduced1'', ''testInvalidBranchOutputNotProduced2'',
      ''testInvalidBranchBlobOverwrite'', ''testInvalidCopy'', ''testInvalidLoop1'',
      ''testInvalidLoop2'', ''testInvalidLoop3'', ''testInvalidLoop4'', ''testInvalidLoop5'',
      ''testInvalidLoopBreak'', ''testInvalidLoopContinue'', ''testInvalidRankInconsistency'',
      ''testInvalidExpandDims1'', ''testInvalidExpandDims2'', ''testInvalidSqueeze1'',
      ''testInvalidPoolingRank1'', ''testInvalidPoolingRank2'', ''testInvalidIOS13LayerOldRank'',
      ''testInvalidConcatNdWrongAxis'', ''testInvalidSoftmaxNdWrongAxis'',
      ''testInvalidSlidingWindowWrongAxis'', ''testInvalidReverseWrongDimLength'',
      ''testInvalidStackWrongAxis'', ''testInvalidSplitNdNoSplitSizesAndNumSplits'',
      ''testInvalidSplitNdWrongNumSplits'', ''testInvalidSplitNdWrongAxis'',
      ''testInvalidFillStaticNoTargetShape'', ''testInvalidBroadcastToStaticNoTargetShape'',
      ''testInvalidSliceStaticNoParams'', ''testInvalidClipWrongMinMax'',
      ''testInvalidFlattenTo2dWrongAxis'', ''testInvalidReshapeStaticNoTargetShape'',
      ''testInvalidRandomUniformDistributionWrongMinMax'',
      ''testInvalidRandomBernoulliDistributionWrongProb'', ''testInvalidReductionTypeWrongAxis'',
      ''testInvalidLayerNormalizationNoNormalizedShape'',
      ''testInvalidLayerNormalizationNoGammaOrBeta'',
      ''testInvalidLayerNormalizationWrongGammaOrBeta'', ''testInvalidConstantPad'',
      ''testInvalidArgsortWrongAxis'', ''testMultiFunctionSpecificationVersion'',
      ''testMultiFunctionDefaultFunctionName'',
      ''testMultiFunctionTopLevelFeatureDescriptionsMustBeEmpty'',
      ''testMultiFunctionEmptyInput'', ''testMultiFunctionAllowed'',
      ''testStateSpecificationVersion'', ''testStateFeatureDescriptionInInputs'',
      ''testStateFeatureIsNotFP16_shouldFail'', ''testStateFeatureIsOptional_shouldFail'',
      ''testStateFeatureHasNoDefaultShape_shouldFail'',
      ''testStateFeatureHasNoArrayType_shouldFail'',
      ''testStateFeature_ArrayUsesRangeFlexibleShape_shouldFail'',
      ''testStateFeature_ArrayUsesEnumeratedFlexibleShape_shouldFail'',
      ''testArrayFeature_Int8_SpecificationVersion'',
      ''testArrayFeature_DefaultOptionalValueOutOfRange_shouldFail'',
      ''testUpdatableModelSpecVersion'', ''testInvalidUpdatableModelQuantizedWeights'',
      ''testInvalidUpdatableModelQuantizedBias'',
      ''testValidUpdatableModelQuantizedWeightsAndBiasForNonUpdatableLayer'',
      ''testInvalidUpdatableModelWrongType'', ''testInvalidUpdatableModelWrongLayer'',
      ''testInvalidUpdatableModelWrongWeights'', ''testInvalidUpdatableModelWrongBiases'',
      ''testInvalidUpdatableModelNonUpdatableLayers'',
      ''testInvalidUpdatableModelwithCollidedLayerAndLossLayerNames'',
      ''testInvalidModelUnsupportedLayersForBP'', ''testInvalidUpdatableLayerMissingBias'',
      ''testInvalidCategoricalCrossEntropyLossLayerInputs'',
      ''testInvalidMeanSquaredErrorLossLayerInputs'', ''testInvalidModelInvalidSoftmax'',
      ''testValidModelValidMultipleSoftmax_1'', ''testValidModelValidMultipleSoftmax_2'',
      ''testValidModelMultipleSoftmaxOutputs'', ''testInvalidModelMultipleLoss'',
      ''testMissingUpdatableModelParameters'', ''testMissingMiniBatchSizeParameter'',
      ''testMissingLearningRateParameter'', ''testMissingBeta1Parameter'',
      ''testMissingBeta2Parameter'', ''testMissingEpsParameter'', ''testMissingEpochsParameter'',
      ''testValidUpdatableModelWith1024Layers'', ''testExistingShuffleWithMissingSeedParameter'',
      ''testNonUpdatablePipelineWithNonUpdatableModels'',
      ''testNonUpdatablePipelineWithOneUpdatableModel'',
      ''testNonUpdatablePipelineWithOneUpdatableModelInsidePipelineHierarchy'',
      ''testUpdatablePipelineWithNonUpdatableModels'',
      ''testUpdatablePipelineWithMultipleUpdatableModels'',
      ''testUpdatablePipelineWithOneUpdatableModel'',
      ''testUpdatablePipelineWithOneUpdatableModelInsidePipelineHierarchy'',
      ''testMiniBatchSizeOutOfAllowedRange'', ''testMiniBatchSizeOutOfAllowedSet'',
      ''testLearningRateOutOfAllowedRange'', ''testMomentumOutOfAllowedRange'',
      ''testBeta1OutOfAllowedRange'', ''testBeta2OutOfAllowedRange'',
      ''testEpsOutOfAllowedRange'', ''testEpochsOutOfAllowedRange'',
      ''testEpochsOutOfAllowedSet'', ''testFileWriterTestsNoAccess'',
      ''testFileWriterTestsOffsetNotAligned'', ''testFileWriterTestsReadData'',
      ''testFileWriterTestsWriteDataWithOffset'', ''testFileWriterTestsWriteToFile'',
      ''testMMapFileReaderTestsFileErrorEmpty'', ''testMMapFileReaderTestsFileErrorNotFound'',
      ''testMMapFileReaderTestsReadData'', ''testMMapFileReaderTestsReadStruct'',
      ''testSpanCastTestsBasics'', ''testSpanCastTestsFromInt4'', ''testSpanCastTestsToInt4'',
      ''testSpanTestsAccessImmutable'', ''testSpanTestsAccessMutable'',
      ''testSpanTestsConstInt4'', ''testSpanTestsConstUInt4'',
      ''testSpanTestsCopyAndAssignment'', ''testSpanTestsDefaultConstructor'',
      ''testSpanTestsEmpty'', ''testSpanTestsImplicitConstCopyCtor'', ''testSpanTestsInt4'',
      ''testSpanTestsIterationDynamicSlices'', ''testSpanTestsIterationIllegal'',
      ''testSpanTestsIterationMultipleDims'', ''testSpanTestsIterationStaticSlices'',
      ''testSpanTestsIteratorImmutable'', ''testSpanTestsIteratorImmutableExplicitBeginEnd'',
      ''testSpanTestsIteratorImmutableExplicitCRBeginCREnd'',
      ''testSpanTestsIteratorImmutableExplicitCbeginCend'',
      ''testSpanTestsIteratorImmutableExplicitRBeginREnd'', ''testSpanTestsIteratorMutable'',
      ''testSpanTestsIteratorMutableExplicitBeginEnd'',
      ''testSpanTestsIteratorMutableExplicitCRbeginCRend'',
      ''testSpanTestsIteratorMutableExplicitCbeginCend'',
      ''testSpanTestsIteratorMutableExplicitRbeginRend'',
      ''testSpanTestsMakeSpanArrayForcedImmutable'', ''testSpanTestsMakeSpanArrayImmutable'',
      ''testSpanTestsMakeSpanArrayMutable'', ''testSpanTestsMakeSpanVectorForcedImmutable'',
      ''testSpanTestsMakeSpanVectorForcedImmutableFromConst'',
      ''testSpanTestsMakeSpanVectorImmutable'', ''testSpanTestsMakeSpanVectorMutable'',
      ''testSpanTestsSlicingBounded'', ''testSpanTestsSlicingByDimension'',
      ''testSpanTestsSlicingByDimensionWithInvalidIndex'',
      ''testSpanTestsSlicingByInvalidDimension'', ''testSpanTestsSlicingIllegalBounds'',
      ''testSpanTestsSlicingUnbounded'', ''testSpanTestsSlicingUnboundedEdge'',
      ''testSpanTestsSlicingZeroLength'', ''testSpanTestsSpanOverload'',
      ''testSpanTestsStaticSizedAccessImmutable'', ''testSpanTestsStaticSizedAccessMutable'',
      ''testSpanTestsSubByteUIntValueAt'', ''testSpanTestsSubbyteIntValueAt'',
      ''testStorageIntegrationTestsReadDataWithIncorrectOffset'',
      ''testStorageIntegrationTestsReadDataWithIncorrectType'',
      ''testStorageIntegrationTestsWriteAndReadValues'', ''testStorageReaderTestsAllOffsets'',
      ''testStorageReaderTestsAllOffsetsWithEmptyBlobFile'',
      ''testStorageReaderTestsBasicProperties'', ''testStorageReaderTestsDataOffset'',
      ''testStorageReaderTestsIncorrectDType'', ''testStorageReaderTestsIncorrectMetadata'',
      ''testStorageReaderTestsInt8Data'', ''testStorageReaderTestsIsEncryptedWithEmptyBlobFile'',
      ''testStorageReaderTestsRawData'', ''testStorageReaderTestsThreeRecords'',
      ''testStorageReaderTestsTruncatedData'', ''testStorageReaderTestsTruncatedHeader'',
      ''testStorageReaderTestsTruncatedMetadata'', ''testStorageReaderTestsZeroRecords'',
      ''testStorageWriterTestsAlignment'', ''testStorageWriterTestsAppendToExistingFile'',
      ''testStorageWriterTestsSupportedTypes'', ''testInvalid_NoTrainingInputs'',
      ''testInvalid_OnlyModelInputs'', ''testInvalid_OnlyTarget'',
      ''testInvalid_OnlyPredictedFeatureName'',
      ''testInvalid_OnlyTargetAndPredictedFeatureName'',
      ''testInvalid_TargetAndFakeModelInputs'',
      ''testInvalid_PredictedFeatureNameAndFakeModelInputs'',
      ''testInvalid_TargetPredictedFeatureNameAndFakeModelInputs'',
      ''testInvalid_PredictedFeatureName'', ''testValid_TargetAndPredictedFeatureName'',
      ''testValid_TargetAndRealAndFakeTrainingInputs'', ''testValid_TargetOneOfTwoModelInputs'',
      ''testValid_TargetUnusedOneOfTwoModelInput'', ''testValid_1InferenceAnd3TrainingInputs'',
      ''testInvalid_Classifier_OnlyPredictedFeatureName'', ''testInvalid_Classifier_OnlyTarget'',
      ''testValid_Classifier_PredictedFeatureName'', ''testValid_Classifier_Target'',
      ''testValid_Classifier_PredictedFeatureNameAndTarget'',
      ''testInvalid_Classifier_PredictedFeatureNameWrongType'', ''testValid_WithMSE'',
      ''testValid_Pipeline'']"

text \<open>
  The header for a list of test names: lines 1 to 9, one invocation per name, and the
  last line \<^verbatim>\<open>#undef MLMODEL_TEST\<close>. MLModelTests.hpp is the header for the 340
  names above.
\<close>

definition test_list_header :: "pp_token list \<Rightarrow> directive list" where
  "test_list_header names =
     header_prologue @ [Tokens (concat (map invocation names)), Undef ''MLMODEL_TEST'']"

definition MLModelTests_hpp :: "directive list" where
  "MLModelTests_hpp = test_list_header test_names"

definition include_MLModelTests ::
  "nat \<Rightarrow> macro_env \<Rightarrow> cpp_error + pp_token list \<times> macro_env" where
  "include_MLModelTests fuel env = include_file fuel MLModelTests_hpp env"

text \<open>The forward declaration \<^verbatim>\<open>int T();\<close> as tokens.\<close>

definition forward_declaration :: "pp_token \<Rightarrow> pp_token list" where
  "forward_declaration T = [''int'', T, ''('', '')'', '';'']"

text \<open>
  Two declarations that are not the forward declaration of the header:
  \<^verbatim>\<open>void T(void);\<close> and \<^verbatim>\<open>long T();\<close>.
\<close>

definition void_declaration :: "pp_token \<Rightarrow> pp_token list" where
  "void_declaration T = [''void'', T, ''('', ''void'', '')'', '';'']"

definition long_declaration :: "pp_token \<Rightarrow> pp_token list" where
  "long_declaration T = [''long'', T, ''('', '')'', '';'']"

text \<open>
  For the proofs: the macros after lines 1 to 3; a token that expansion passes on
  whatever names it carries; a replacement list with its one parameter replaced by a
  test name; and the tokens, with the names they carry, that one invocation of
  MLMODEL_TEST leaves when MLMODEL_DECLARE_TEST has parameter \<open>p\<close> and replacement
  list \<open>body\<close>.
\<close>

definition after_ifndef :: "macro_env \<Rightarrow> macro_env" where
  "after_ifndef env =
     (case env ''MLMODEL_DECLARE_TEST'' of
        None \<Rightarrow> env(''MLMODEL_DECLARE_TEST'' \<mapsto> DECLARE_TEST_default)
      | Some m \<Rightarrow> env)"

definition inert :: "macro_env \<Rightarrow> pp_token \<Rightarrow> bool" where
  "inert env t = (\<not> is_identifier t \<or> env t = None)"

definition instantiate :: "pp_token \<Rightarrow> pp_token \<Rightarrow> pp_token list \<Rightarrow> pp_token list" where
  "instantiate p T body = map (\<lambda>t. if t = p then T else t) body"

definition declared :: "pp_token \<Rightarrow> pp_token list \<Rightarrow> pp_token \<Rightarrow> hidden_token list" where
  "declared p body T =
     hide [''MLMODEL_DECLARE_TEST'', ''MLMODEL_TEST'']
       (substitute [(p, [(T, [''MLMODEL_TEST''])])] body)"

section \<open>Span: a typed view over a byte buffer\<close>

text \<open>
  The sources hold only the declarations of the MILBlob storage tests
  (\<^verbatim>\<open>testSpanTests...\<close> in MLModelTests.hpp); the Span implementation is not among
  them. The definitions of this section follow the specification's description of Span
  (data model and component design 4.3).
\<close>

type_synonym byte = "8 word"

text \<open>
  Modelled from the spec: the error taxonomy of the storage layer (section 7 and the
  contracts of 4.1 and 4.2); the exception types themselves are missing from the sources.
\<close>

datatype storage_error =
    IOError | AlignmentError
  | TruncatedHeaderError | TruncatedMetadataError | TruncatedDataError
  | FormatError | TypeMismatchError | SizeMismatchError | RangeError
  | UnsupportedTypeError | CorruptFileError | IndexOutOfRangeError
  | FileNotFoundError | FileEmptyError | OutOfRangeError

text \<open>
  Modelled from the spec: the closed enumeration of element data types (section 6):
  signed and unsigned 4-bit packed integers, 8/16/32-bit integers of both signs, and
  16/32/64-bit floating point. The enumeration's declaration is missing from the sources.
\<close>

datatype data_type =
    Int4 | UInt4 | Int8 | UInt8 | Int16 | UInt16 | Int32 | UInt32
  | Float16 | Float32 | Float64

text \<open>Modelled from the spec: the packed bit width of each element type (missing table).\<close>

fun bit_width :: "data_type \<Rightarrow> nat" where
  "bit_width Int4 = 4"
| "bit_width UInt4 = 4"
| "bit_width Int8 = 8"
| "bit_width UInt8 = 8"
| "bit_width Int16 = 16"
| "bit_width UInt16 = 16"
| "bit_width Int32 = 32"
| "bit_width UInt32 = 32"
| "bit_width Float16 = 16"
| "bit_width Float32 = 32"
| "bit_width Float64 = 64"

text \<open>
  Modelled from the spec: the Span descriptor (missing class Span): element type tag,
  base offset, shape (ordered extents) and strides. It owns no memory: the buffer it
  views is passed to every access. Base and strides count elements of the span's type
  from the start of the buffer, so that a 4-bit element has a position of its own.
\<close>

record span =
  dtype :: data_type
  base :: nat
  shape :: "nat list"
  strides :: "nat list"

text \<open>Modelled from the spec: the invariant \<open>len(shape) == len(strides)\<close> of a Span.\<close>

definition span_valid :: "span \<Rightarrow> bool" where
  "span_valid s = (length (shape s) = length (strides s))"

text \<open>Modelled from the spec: a span is empty when one of its extents is zero.\<close>

definition span_empty :: "span \<Rightarrow> bool" where
  "span_empty s = (0 \<in> set (shape s))"

text \<open>
  Modelled from the spec: slicing dimension \<open>d\<close> of a span to the bounded range
  \<open>[lo, hi)\<close> (missing slicing method of Span). Bounds outside the extent of the
  dimension, a reversed range or a dimension the span does not have fail with RangeError;
  \<open>lo = hi\<close> is legal. Only the descriptor changes: the base moves by \<open>lo\<close>
  strides and the extent becomes \<open>hi - lo\<close>.
\<close>

definition sliceBounded :: "span \<Rightarrow> nat \<Rightarrow> nat \<Rightarrow> nat \<Rightarrow> storage_error + span" where
  "sliceBounded s d lo hi =
     (if d < length (shape s) \<and> d < length (strides s) \<and> lo \<le> hi \<and> hi \<le> shape s ! d
      then Inr (s\<lparr>base := base s + lo * (strides s ! d), shape := (shape s)[d := hi - lo]\<rparr>)
      else Inl RangeError)"

text \<open>
  Modelled from the spec: addressing (missing from the sources). A multi-index, one
  index per dimension and each below its extent, resolves through the strides to the
  linear position of the element; any other index fails with RangeError.
\<close>

definition element_position :: "span \<Rightarrow> nat list \<Rightarrow> storage_error + nat" where
  "element_position s idx =
     (if length idx = length (shape s) \<and> length (shape s) = length (strides s)
         \<and> list_all2 (\<lambda>i n. i < n) idx (shape s)
      then Inr (base s + sum_list (map2 (\<lambda>i k. i * k) idx (strides s)))
      else Inl RangeError)"

text \<open>
  Modelled from the spec: the position of a 4-bit element resolves to the pair
  (byteIndex, bitShift). Two elements share a byte; which of the two halves comes first
  is the implementer's choice, here the low half.
\<close>

definition subbyte_address :: "nat \<Rightarrow> nat \<times> nat" where
  "subbyte_address e = (e div 2, 4 * (e mod 2))"

text \<open>
  Modelled from the spec: reading a 4-bit element by mask-and-shift (missing accessor).
  A position outside the buffer is reported as RangeError.
\<close>

definition read_nibble :: "byte list \<Rightarrow> nat \<Rightarrow> storage_error + byte" where
  "read_nibble buf e =
     (case subbyte_address e of
        (byteIndex, bitShift) \<Rightarrow>
          if byteIndex < length buf then Inr (drop_bit bitShift (buf ! byteIndex) AND 15)
          else Inl RangeError)"

text \<open>
  Modelled from the spec: writing a 4-bit element by mask-and-shift (missing accessor):
  the four bits of the element are cleared in its byte and the new bits are put in.
\<close>

definition write_nibble :: "byte list \<Rightarrow> nat \<Rightarrow> byte \<Rightarrow> storage_error + byte list" where
  "write_nibble buf e v =
     (case subbyte_address e of
        (byteIndex, bitShift) \<Rightarrow>
          if byteIndex < length buf
          then Inr (buf[byteIndex :=
                 (buf ! byteIndex AND NOT (push_bit bitShift 15)) OR push_bit bitShift (v AND 15)])
          else Inl RangeError)"

text \<open>
  Modelled from the spec: decoding the four bits of an element to its value, with sign
  extension for the signed packed type (missing conversion of the 4-bit types).
\<close>

definition decode_nibble :: "data_type \<Rightarrow> byte \<Rightarrow> int" where
  "decode_nibble t n = (if t = Int4 \<and> bit n 3 then uint n - 16 else uint n)"

text \<open>
  Modelled from the spec: encoding a value to the four bits that are stored (missing
  conversion of the 4-bit types): the low four bits of its two's complement form.
\<close>

definition encode_nibble :: "int \<Rightarrow> byte" where
  "encode_nibble v = word_of_int v AND 15"

text \<open>
  Modelled from the spec: the value range of the two 4-bit types, \<open>[-8, 7]\<close> signed
  and \<open>[0, 15]\<close> unsigned.
\<close>

definition nibble_range :: "data_type \<Rightarrow> int \<Rightarrow> bool" where
  "nibble_range t v = (if t = Int4 then - 8 \<le> v \<and> v \<le> 7 else 0 \<le> v \<and> v \<le> 15)"

text \<open>
  Modelled from the spec: reading an element of a span of a 4-bit type (missing accessor
  of Span): the index resolves to a position, the position to (byteIndex, bitShift), and
  the value is read decoded, never as raw bits. The accessor exists for the two 4-bit
  types only; the model reports a span of another type as TypeMismatchError.
\<close>

definition valueAt :: "span \<Rightarrow> byte list \<Rightarrow> nat list \<Rightarrow> storage_error + int" where
  "valueAt s buf idx =
     (if bit_width (dtype s) \<noteq> 4 then Inl TypeMismatchError
      else case element_position s idx of
             Inl err \<Rightarrow> Inl err
           | Inr e \<Rightarrow>
               (case read_nibble buf e of
                  Inl err \<Rightarrow> Inl err
                | Inr n \<Rightarrow> Inr (decode_nibble (dtype s) n)))"

text \<open>
  Modelled from the spec: writing an element of a span of a 4-bit type (missing accessor
  of Span), through the same addressing; the value is encoded to four bits and put into
  its byte. As for reading, a span of another type is reported as TypeMismatchError.
\<close>

definition setValueAt :: "span \<Rightarrow> byte list \<Rightarrow> nat list \<Rightarrow> int \<Rightarrow> storage_error + byte list" where
  "setValueAt s buf idx v =
     (if bit_width (dtype s) \<noteq> 4 then Inl TypeMismatchError
      else case element_position s idx of
             Inl err \<Rightarrow> Inl err
           | Inr e \<Rightarrow> write_nibble buf e (encode_nibble v))"

section \<open>MemoryMappedFileReader\<close>

text \<open>
  The sources hold only the declarations of the reader's tests
  (\<^verbatim>\<open>testMMapFileReaderTests...\<close>); the reader itself is not among them. The
  definitions of this section follow the contract of the specification (4.2).
\<close>

text \<open>
  Modelled from the spec: the files a reader can be opened on (missing: the file system),
  as a partial map from paths to file contents.
\<close>

type_synonym file_system = "string \<rightharpoonup> byte list"

text \<open>
  Modelled from the spec: an open MemoryMappedFileReader (missing class): the read-only
  mapping of the whole file, a snapshot taken when the file is opened.
\<close>

record mmap_reader =
  mapping :: "byte list"

text \<open>
  Modelled from the spec: \<open>open(path)\<close> (missing from the sources) maps the whole file;
  it fails with FileNotFoundError if the file is missing and with FileEmptyError if its
  length is zero.
\<close>

definition mmap_open :: "file_system \<Rightarrow> string \<Rightarrow> storage_error + mmap_reader" where
  "mmap_open fs path =
     (case fs path of
        None \<Rightarrow> Inl FileNotFoundError
      | Some contents \<Rightarrow>
          if length contents = 0 then Inl FileEmptyError else Inr \<lparr>mapping = contents\<rparr>)"

text \<open>
  Modelled from the spec: \<open>getBytes(offset, length)\<close> (missing from the sources)
  returns a bounded view of the mapping and fails with OutOfRangeError if
  \<open>offset + length\<close> exceeds the file size. Offsets and lengths are natural numbers.
\<close>

definition getBytes :: "mmap_reader \<Rightarrow> nat \<Rightarrow> nat \<Rightarrow> storage_error + byte list" where
  "getBytes r offset len =
     (if length (mapping r) < offset + len then Inl OutOfRangeError
      else Inr (take len (drop offset (mapping r))))"

lemmas version_defs =
  MLMODEL_SPECIFICATION_VERSION_IOS11_def MLMODEL_SPECIFICATION_VERSION_IOS11_2_def
  MLMODEL_SPECIFICATION_VERSION_IOS12_def MLMODEL_SPECIFICATION_VERSION_IOS13_def
  MLMODEL_SPECIFICATION_VERSION_IOS14_def MLMODEL_SPECIFICATION_VERSION_IOS15_def
  MLMODEL_SPECIFICATION_VERSION_IOS16_def MLMODEL_SPECIFICATION_VERSION_IOS17_def
  MLMODEL_SPECIFICATION_VERSION_IOS18_def MLMODEL_SPECIFICATION_VERSION_IOS26_def
  MLMODEL_SPECIFICATION_VERSION_NEWEST_def MLMODEL_SPECIFICATION_VERSION_def

section \<open>Properties of the specification versions\<close>

text \<open>
  C8: the newest version is the iOS 26 one, whose value is 10, and the macro
  MLMODEL_SPECIFICATION_VERSION stands for the newest version, so the default
  specification version of the library is the signed integer 10.
\<close>

theorem default_specification_version_is_10:
  "MLMODEL_SPECIFICATION_VERSION_NEWEST = MLMODEL_SPECIFICATION_VERSION_IOS26
   \<and> MLMODEL_SPECIFICATION_VERSION_IOS26 = 10
   \<and> MLMODEL_SPECIFICATION_VERSION = MLMODEL_SPECIFICATION_VERSION_NEWEST
   \<and> sint MLMODEL_SPECIFICATION_VERSION = 10"
  by (simp add: version_defs)

text \<open>
  C9: read in declaration order (iOS 11, 11.2, 12, 13, 14, 15, 16, 17, 18, 26), the ten
  version constants are the consecutive integers 1 to 10; they are pairwise distinct and
  every later release has a strictly larger signed value.
\<close>

theorem specification_versions_consecutive:
  "map sint specification_versions = [1, 2, 3, 4, 5, 6, 7, 8, 9, 10]
   \<and> distinct specification_versions
   \<and> sorted_wrt (\<lambda>a b. sint a < sint b) specification_versions"
  by (simp add: specification_versions_def version_defs)

section \<open>Properties of the test list header\<close>

lemma identifier_MLMODEL_TEST: "is_identifier ''MLMODEL_TEST''"
  by (simp add: is_identifier_def identifier_start_def identifier_char_def)

lemma identifier_MLMODEL_DECLARE_TEST: "is_identifier ''MLMODEL_DECLARE_TEST''"
  by (simp add: is_identifier_def identifier_start_def identifier_char_def)

lemma identifier_int: "is_identifier ''int''"
  by (simp add: is_identifier_def identifier_start_def identifier_char_def)

lemma punctuators_not_identifiers:
  "\<not> is_identifier ''(''" "\<not> is_identifier '')''" "\<not> is_identifier '';''"
  by (simp_all add: is_identifier_def identifier_start_def)

text \<open>Facts about the listed names, by inspection of the list.\<close>

lemma test_names_plain:
  "T \<in> set test_names \<Longrightarrow>
   T \<noteq> ''('' \<and> T \<noteq> '')'' \<and> T \<noteq> '','' \<and> T \<noteq> ''MLMODEL_TEST'' \<and> T \<noteq> ''MLMODEL_DECLARE_TEST''"
  by (auto simp: test_names_def)

lemma test_names_not_keywords:
  "T \<in> set test_names \<Longrightarrow> T \<noteq> ''int'' \<and> T \<noteq> ''long'' \<and> T \<noteq> ''void''"
  by (auto simp: test_names_def)

lemma length_test_names: "length test_names = 340"
  by (simp add: test_names_def)

lemma test_names_first:
  "\<exists>names. test_names = ''testBasicSaveLoad'' # names \<and> ''testBasicSaveLoad'' \<notin> set names
     \<and> length names = 339"
  by (simp add: test_names_def)

text \<open>Tokens that name no macro pass through expansion unchanged.\<close>

lemma expand_inert:
  assumes "\<forall>t\<in>set ts. inert env (fst t)"
  shows "expand env fuel (ts @ rest)
           = (case expand env fuel rest of Inl e \<Rightarrow> Inl e | Inr r \<Rightarrow> Inr (ts @ r))"
  using assms
proof (induction ts)
  case Nil
  then show ?case by (simp split: sum.splits)
next
  case (Cons x ts)
  obtain t hs where x: "x = (t, hs)" by (cases x)
  from Cons.prems x have "(if is_identifier t \<and> t \<notin> set hs then env t else None) = None"
    by (auto simp: inert_def)
  with Cons show ?case
    by (simp add: x emit_def split: sum.splits)
qed

lemma substitute_one:
  "map fst (hide names (substitute [(p, [(T, hs)])] body)) = instantiate p T body"
  by (induction body) (auto simp: hide_def instantiate_def)

lemma substitute_inert:
  assumes "inert env T" and "\<forall>t\<in>set body. t \<noteq> p \<longrightarrow> inert env t"
  shows "\<forall>t\<in>set (hide names (substitute [(p, [(T, hs)])] body)). inert env (fst t)"
  using assms(2) by (induction body) (auto simp: hide_def assms(1))

text \<open>
  One invocation, where MLMODEL_TEST calls MLMODEL_DECLARE_TEST and that has one
  parameter and a replacement list of tokens that name no macro: two replacements, then
  the rest of the tokens is expanded.
\<close>

lemma expand_invocation:
  assumes "env ''MLMODEL_TEST'' = Some TEST_declares"
    and "env ''MLMODEL_DECLARE_TEST'' = Some (Function_like [p] body)"
    and "\<forall>t\<in>set body. t \<noteq> p \<longrightarrow> inert env t"
    and "env T = None" and "T \<noteq> ''(''" and "T \<noteq> '')''" and "T \<noteq> '',''"
  shows "expand env (Suc (Suc f)) (map (\<lambda>t. (t, [])) (invocation T) @ rest)
           = (case expand env f rest of Inl e \<Rightarrow> Inl e | Inr r \<Rightarrow> Inr (declared p body T @ r))"
proof -
  have "inert env T" using assms(4) by (simp add: inert_def)
  from expand_inert [OF substitute_inert [OF this assms(3)]]
  have "expand env f (declared p body T @ rest)
          = (case expand env f rest of Inl e \<Rightarrow> Inl e | Inr r \<Rightarrow> Inr (declared p body T @ r))"
    unfolding declared_def .
  moreover have "expand env (Suc (Suc f)) (map (\<lambda>t. (t, [])) (invocation T) @ rest)
          = expand env f (declared p body T @ rest)"
    using assms(1,2,4-7)
    by (simp add: invocation_def TEST_declares_def identifier_MLMODEL_TEST
        identifier_MLMODEL_DECLARE_TEST arity_ok_def hide_def emit_def declared_def)
  ultimately show ?thesis by simp
qed

lemma expand_invocations:
  assumes "env ''MLMODEL_TEST'' = Some TEST_declares"
    and "env ''MLMODEL_DECLARE_TEST'' = Some (Function_like [p] body)"
    and "\<forall>t\<in>set body. t \<noteq> p \<longrightarrow> inert env t"
    and "\<forall>T\<in>set names. env T = None \<and> T \<noteq> ''('' \<and> T \<noteq> '')'' \<and> T \<noteq> '',''"
    and "2 * length names \<le> fuel"
  shows "expand env fuel (map (\<lambda>t. (t, [])) (concat (map invocation names)))
           = Inr (concat (map (declared p body) names))"
  using assms(4,5)
proof (induction names arbitrary: fuel)
  case Nil
  then show ?case by simp
next
  case (Cons T names)
  from Cons.prems(2) obtain f where fuel: "fuel = Suc (Suc f)" and f: "2 * length names \<le> f"
    by (cases fuel; cases "fuel - 1") auto
  from Cons.prems(1) have T: "env T = None" "T \<noteq> ''(''" "T \<noteq> '')''" "T \<noteq> '',''"
    and rest: "\<forall>T\<in>set names. env T = None \<and> T \<noteq> ''('' \<and> T \<noteq> '')'' \<and> T \<noteq> '',''"
    by auto
  show ?case
    using expand_invocation [OF assms(1-3) T, of f "map (\<lambda>t. (t, [])) (concat (map invocation names))"]
      Cons.IH [OF rest f]
    by (simp add: fuel)
qed

lemma fst_declared:
  "map fst (concat (map (declared p body) names)) = concat (map (\<lambda>T. instantiate p T body) names)"
  by (induction names) (simp_all add: declared_def substitute_one)

lemma instantiate_default:
  "(\<lambda>T. instantiate ''x'' T [''int'', ''x'', ''('', '')'', '';'']) = forward_declaration"
  by (rule ext) (simp add: instantiate_def forward_declaration_def)

text \<open>
  The header for any list of names, where MLMODEL_RUN_TEST is not defined: lines 1 to 9
  leave MLMODEL_DECLARE_TEST defined and MLMODEL_TEST calling it, the invocations are
  expanded with these macros, and the last line undefines MLMODEL_TEST.
\<close>

lemma include_via_expand:
  assumes run: "env ''MLMODEL_RUN_TEST'' = None"
    and ex: "expand ((after_ifndef env)(''MLMODEL_TEST'' \<mapsto> TEST_declares)) fuel
               (map (\<lambda>t. (t, [])) (concat (map invocation names))) = Inr out"
  shows "include_file fuel (test_list_header names) env
           = Inr (map fst out, (after_ifndef env)(''MLMODEL_TEST'' := None))"
proof -
  let ?env2 = "(after_ifndef env)(''MLMODEL_TEST'' \<mapsto> TEST_declares)"
  have pro: "preprocess fuel (header_prologue @ ds) \<lparr>macros = env, conditions = [], emitted = []\<rparr>
               = preprocess fuel ds \<lparr>macros = ?env2, conditions = [], emitted = []\<rparr>" for ds
    using run by (cases "env ''MLMODEL_DECLARE_TEST''")
      (simp_all add: header_prologue_def after_ifndef_def active_def)
  from ex show ?thesis
    by (simp add: include_file_def test_list_header_def pro active_def expansion_def)
qed

lemma include_test_list:
  assumes run: "env ''MLMODEL_RUN_TEST'' = None"
    and decl: "after_ifndef env ''MLMODEL_DECLARE_TEST'' = Some (Function_like [p] body)"
    and body: "\<forall>t\<in>set body. t \<noteq> p \<longrightarrow>
                 inert ((after_ifndef env)(''MLMODEL_TEST'' \<mapsto> TEST_declares)) t"
    and names: "\<forall>T\<in>set names. env T = None \<and> T \<noteq> ''('' \<and> T \<noteq> '')'' \<and> T \<noteq> '',''
                   \<and> T \<noteq> ''MLMODEL_TEST'' \<and> T \<noteq> ''MLMODEL_DECLARE_TEST''"
    and fuel: "2 * length names \<le> fuel"
  shows "include_file fuel (test_list_header names) env
           = Inr (concat (map (\<lambda>T. instantiate p T body) names),
                  (after_ifndef env)(''MLMODEL_TEST'' := None))"
proof -
  let ?env2 = "(after_ifndef env)(''MLMODEL_TEST'' \<mapsto> TEST_declares)"
  have n2: "\<forall>T\<in>set names. ?env2 T = None \<and> T \<noteq> ''('' \<and> T \<noteq> '')'' \<and> T \<noteq> '',''"
    using names by (auto simp: after_ifndef_def split: option.splits)
  have "expand ?env2 fuel (map (\<lambda>t. (t, [])) (concat (map invocation names)))
          = Inr (concat (map (declared p body) names))"
    by (rule expand_invocations [OF _ _ body n2 fuel]) (simp_all add: decl)
  from include_via_expand [OF run this] show ?thesis
    by (simp add: fst_declared)
qed

text \<open>
  C10, as amended: let MLMODEL_RUN_TEST be not defined, MLMODEL_DECLARE_TEST be either
  not defined or defined as the header defines it, and neither \<^verbatim>\<open>int\<close> nor the name of
  a listed test be defined as a macro. Then every \<^verbatim>\<open>MLMODEL_TEST(T)\<close> of the header
  expands through MLMODEL_DECLARE_TEST to the forward declaration \<^verbatim>\<open>int T();\<close>;
  including the header puts out exactly these declarations, one per listed test in the
  order of the list, and nothing else; and its only other effect is on the macros:
  afterwards MLMODEL_DECLARE_TEST is defined as the header defines it, MLMODEL_TEST is
  not defined, and every other macro is as before. The first part of the statement is
  about one invocation, expanded with the macros in force after lines 1 to 9; the second
  is about the inclusion of the whole header. (\<open>fuel\<close> is the model's bound on the
  number of replacements; two per listed test are enough.)
\<close>

theorem header_declares_each_test:
  assumes "env ''MLMODEL_RUN_TEST'' = None"
    and "env ''MLMODEL_DECLARE_TEST'' = None
         \<or> env ''MLMODEL_DECLARE_TEST'' = Some DECLARE_TEST_default"
    and "env ''int'' = None"
    and "\<forall>T\<in>set test_names. env T = None"
    and "2 * length test_names \<le> fuel"
  shows "(\<forall>T\<in>set test_names.
            expansion ((env(''MLMODEL_DECLARE_TEST'' \<mapsto> DECLARE_TEST_default))
                          (''MLMODEL_TEST'' \<mapsto> TEST_declares)) fuel (invocation T)
              = Inr (forward_declaration T))
       \<and> include_MLModelTests fuel env
           = Inr (concat (map forward_declaration test_names),
                  (env(''MLMODEL_DECLARE_TEST'' \<mapsto> DECLARE_TEST_default))
                     (''MLMODEL_TEST'' := None))"
proof -
  let ?env2 = "(after_ifndef env)(''MLMODEL_TEST'' \<mapsto> TEST_declares)"
  from assms(2) have e1: "after_ifndef env = env(''MLMODEL_DECLARE_TEST'' \<mapsto> DECLARE_TEST_default)"
    by (auto simp: after_ifndef_def fun_upd_idem)
  have decl: "after_ifndef env ''MLMODEL_DECLARE_TEST''
                = Some (Function_like [''x''] [''int'', ''x'', ''('', '')'', '';''])"
    by (simp add: e1 DECLARE_TEST_default_def)
  have body: "\<forall>t\<in>set [''int'', ''x'', ''('', '')'', '';'']. t \<noteq> ''x'' \<longrightarrow> inert ?env2 t"
    using assms(3) by (simp add: e1 inert_def punctuators_not_identifiers)
  have names: "\<forall>T\<in>set test_names. env T = None \<and> T \<noteq> ''('' \<and> T \<noteq> '')'' \<and> T \<noteq> '',''
                   \<and> T \<noteq> ''MLMODEL_TEST'' \<and> T \<noteq> ''MLMODEL_DECLARE_TEST''"
    using assms(4) test_names_plain by blast
  have each: "expansion ?env2 fuel (invocation T) = Inr (forward_declaration T)"
    if T: "T \<in> set test_names" for T
  proof -
    from names T have one: "\<forall>T\<in>set [T]. ?env2 T = None \<and> T \<noteq> ''('' \<and> T \<noteq> '')'' \<and> T \<noteq> '',''"
      by (auto simp: e1)
    from assms(5) have two: "2 * length [T] \<le> fuel"
      by (simp add: length_test_names)
    have "expand ?env2 fuel (map (\<lambda>t. (t, [])) (concat (map invocation [T])))
            = Inr (concat (map (declared ''x'' [''int'', ''x'', ''('', '')'', '';'']) [T]))"
      by (rule expand_invocations [OF _ _ body one two]) (simp_all add: decl)
    then show ?thesis
      using fst_declared [of "''x''" "[''int'', ''x'', ''('', '')'', '';'']" "[T]"]
      by (simp add: expansion_def instantiate_default)
  qed
  from include_test_list [OF assms(1) decl body names assms(5)]
  have "include_MLModelTests fuel env
          = Inr (concat (map forward_declaration test_names),
                 (env(''MLMODEL_DECLARE_TEST'' \<mapsto> DECLARE_TEST_default))(''MLMODEL_TEST'' := None))"
    by (simp add: include_MLModelTests_def MLModelTests_hpp_def instantiate_default e1)
  with each show ?thesis
    by (simp add: e1)
qed

text \<open>
  The theorem where no macro is defined, and where only MLMODEL_DECLARE_TEST is, as an
  earlier inclusion of the header leaves it: both inclusions put out the 340 forward
  declarations, the first of them \<^verbatim>\<open>int testBasicSaveLoad();\<close>, and leave only
  MLMODEL_DECLARE_TEST defined.
\<close>

theorem header_declares_each_test_witness:
  "include_MLModelTests 680 Map.empty
     = Inr (concat (map forward_declaration test_names),
            [''MLMODEL_DECLARE_TEST'' \<mapsto> DECLARE_TEST_default])
   \<and> include_MLModelTests 680 [''MLMODEL_DECLARE_TEST'' \<mapsto> DECLARE_TEST_default]
     = Inr (concat (map forward_declaration test_names),
            [''MLMODEL_DECLARE_TEST'' \<mapsto> DECLARE_TEST_default])
   \<and> hd test_names = ''testBasicSaveLoad''
   \<and> expansion [''MLMODEL_DECLARE_TEST'' \<mapsto> DECLARE_TEST_default,
                 ''MLMODEL_TEST'' \<mapsto> TEST_declares] 680 (invocation ''testBasicSaveLoad'')
     = Inr [''int'', ''testBasicSaveLoad'', ''('', '')'', '';'']"
proof -
  from test_names_first obtain names where n: "test_names = ''testBasicSaveLoad'' # names"
    by blast
  have first: "''testBasicSaveLoad'' \<in> set test_names"
    and hd: "hd test_names = ''testBasicSaveLoad''" by (simp_all add: n)
  from header_declares_each_test [of Map.empty 680]
    header_declares_each_test [of "[''MLMODEL_DECLARE_TEST'' \<mapsto> DECLARE_TEST_default]" 680]
    test_names_plain first hd
  show ?thesis
    by (auto simp: length_test_names forward_declaration_def)
qed

text \<open>
  The inclusion of the header in three environments in which MLMODEL_RUN_TEST is not
  defined: MLMODEL_DECLARE_TEST defined by the including file, a listed name defined as a
  macro, and \<^verbatim>\<open>int\<close> defined as a macro.
\<close>

lemma output_with_void_DECLARE_TEST:
  "include_MLModelTests 680
     [''MLMODEL_DECLARE_TEST'' \<mapsto>
        Function_like [''x''] [''void'', ''x'', ''('', ''void'', '')'', '';'']]
     = Inr (concat (map void_declaration test_names),
            [''MLMODEL_DECLARE_TEST'' \<mapsto>
               Function_like [''x''] [''void'', ''x'', ''('', ''void'', '')'', '';'']])"
proof -
  let ?env = "[''MLMODEL_DECLARE_TEST'' \<mapsto>
        Function_like [''x''] [''void'', ''x'', ''('', ''void'', '')'', '';'']]"
  have inst: "(\<lambda>T. instantiate ''x'' T [''void'', ''x'', ''('', ''void'', '')'', '';''])
                = void_declaration"
    by (rule ext) (simp add: instantiate_def void_declaration_def)
  have "include_file 680 (test_list_header test_names) ?env
          = Inr (concat (map (\<lambda>T. instantiate ''x'' T
                                [''void'', ''x'', ''('', ''void'', '')'', '';'']) test_names),
                 (after_ifndef ?env)(''MLMODEL_TEST'' := None))"
    by (rule include_test_list)
       (use test_names_plain in
         \<open>auto simp: after_ifndef_def inert_def punctuators_not_identifiers length_test_names\<close>)
  then show ?thesis
    by (simp add: include_MLModelTests_def MLModelTests_hpp_def inst after_ifndef_def)
qed

lemma output_with_renamed_test:
  "include_MLModelTests 680 [''testBasicSaveLoad'' \<mapsto> Object_like [''renamed'']]
     = Inr ([''int'', ''renamed'', ''('', '')'', '';'']
              @ concat (map forward_declaration (tl test_names)),
            [''testBasicSaveLoad'' \<mapsto> Object_like [''renamed''],
             ''MLMODEL_DECLARE_TEST'' \<mapsto> DECLARE_TEST_default])"
proof -
  let ?env = "[''testBasicSaveLoad'' \<mapsto> Object_like [''renamed'']]"
  let ?env2 = "(after_ifndef ?env)(''MLMODEL_TEST'' \<mapsto> TEST_declares)"
  let ?first = "[(''int'', [''MLMODEL_DECLARE_TEST'', ''MLMODEL_TEST'']),
      (''renamed'',
       [''MLMODEL_DECLARE_TEST'', ''MLMODEL_TEST'', ''MLMODEL_TEST'', ''testBasicSaveLoad'']),
      (''('', [''MLMODEL_DECLARE_TEST'', ''MLMODEL_TEST'']),
      ('')'', [''MLMODEL_DECLARE_TEST'', ''MLMODEL_TEST'']),
      ('';'', [''MLMODEL_DECLARE_TEST'', ''MLMODEL_TEST''])]"
  from test_names_first obtain names
    where n: "test_names = ''testBasicSaveLoad'' # names"
      and fresh: "''testBasicSaveLoad'' \<notin> set names" and len: "length names = 339" by blast
  have e2: "?env2 = [''testBasicSaveLoad'' \<mapsto> Object_like [''renamed''],
                     ''MLMODEL_DECLARE_TEST'' \<mapsto> DECLARE_TEST_default,
                     ''MLMODEL_TEST'' \<mapsto> TEST_declares]"
    by (simp add: after_ifndef_def)
  have others: "\<forall>T\<in>set names. ?env2 T = None \<and> T \<noteq> ''('' \<and> T \<noteq> '')'' \<and> T \<noteq> '',''"
    using test_names_plain fresh unfolding e2 n by auto
  have rest: "expand ?env2 678 (map (\<lambda>t. (t, [])) (concat (map invocation names)))
                = Inr (concat (map (declared ''x'' [''int'', ''x'', ''('', '')'', '';'']) names))"
    by (rule expand_invocations [OF _ _ _ others])
       (simp_all add: e2 DECLARE_TEST_default_def inert_def punctuators_not_identifiers len)
  have step: "expand ?env2 680 (map (\<lambda>t. (t, [])) (invocation ''testBasicSaveLoad'') @ ts)
                = (case expand ?env2 678 ts of Inl e \<Rightarrow> Inl e | Inr r \<Rightarrow> Inr (?first @ r))" for ts
    unfolding e2
    by (simp add: invocation_def TEST_declares_def DECLARE_TEST_default_def
        identifier_MLMODEL_TEST identifier_MLMODEL_DECLARE_TEST punctuators_not_identifiers
        is_identifier_def identifier_start_def identifier_char_def
        arity_ok_def hide_def emit_def eval_nat_numeral split: sum.splits)
  have "expand ?env2 680 (map (\<lambda>t. (t, [])) (concat (map invocation test_names)))
          = Inr (?first @ concat (map (declared ''x'' [''int'', ''x'', ''('', '')'', '';'']) names))"
    using step [of "map (\<lambda>t. (t, [])) (concat (map invocation names))"] rest
    by (simp add: n)
  from include_via_expand [OF _ this]
  have "include_file 680 (test_list_header test_names) ?env
          = Inr (map fst (?first
                   @ concat (map (declared ''x'' [''int'', ''x'', ''('', '')'', '';'']) names)),
                 (after_ifndef ?env)(''MLMODEL_TEST'' := None))"
    by simp
  then show ?thesis
    by (simp add: include_MLModelTests_def MLModelTests_hpp_def fst_declared n after_ifndef_def
        instantiate_default)
qed

lemma expand_invocation_long:
  assumes "env = [''int'' \<mapsto> Object_like [''long''],
                  ''MLMODEL_DECLARE_TEST'' \<mapsto> DECLARE_TEST_default,
                  ''MLMODEL_TEST'' \<mapsto> TEST_declares]"
    and "T \<noteq> ''int''" and "T \<noteq> ''MLMODEL_DECLARE_TEST''" and "T \<noteq> ''MLMODEL_TEST''"
    and "T \<noteq> ''(''" and "T \<noteq> '')''" and "T \<noteq> '',''"
  shows "expand env (Suc (Suc (Suc f))) (map (\<lambda>t. (t, [])) (invocation T) @ rest)
           = (case expand env f rest of
                Inl e \<Rightarrow> Inl e
              | Inr r \<Rightarrow>
                  Inr ([(''long'', [''int'', ''MLMODEL_DECLARE_TEST'', ''MLMODEL_TEST'']),
                        (T, [''MLMODEL_DECLARE_TEST'', ''MLMODEL_TEST'', ''MLMODEL_TEST'']),
                        (''('', [''MLMODEL_DECLARE_TEST'', ''MLMODEL_TEST'']),
                        ('')'', [''MLMODEL_DECLARE_TEST'', ''MLMODEL_TEST'']),
                        ('';'', [''MLMODEL_DECLARE_TEST'', ''MLMODEL_TEST''])] @ r))"
  using assms(2-)
  unfolding assms(1)
  by (simp add: invocation_def TEST_declares_def DECLARE_TEST_default_def
      identifier_MLMODEL_TEST identifier_MLMODEL_DECLARE_TEST identifier_int
      punctuators_not_identifiers arity_ok_def hide_def emit_def split: sum.splits)

lemma expand_invocations_long:
  assumes "env = [''int'' \<mapsto> Object_like [''long''],
                  ''MLMODEL_DECLARE_TEST'' \<mapsto> DECLARE_TEST_default,
                  ''MLMODEL_TEST'' \<mapsto> TEST_declares]"
    and "\<forall>T\<in>set names. T \<noteq> ''int'' \<and> T \<noteq> ''MLMODEL_DECLARE_TEST'' \<and> T \<noteq> ''MLMODEL_TEST''
           \<and> T \<noteq> ''('' \<and> T \<noteq> '')'' \<and> T \<noteq> '',''"
    and "3 * length names \<le> fuel"
  shows "\<exists>out. expand env fuel (map (\<lambda>t. (t, [])) (concat (map invocation names))) = Inr out
           \<and> map fst out = concat (map long_declaration names)"
  using assms(2,3)
proof (induction names arbitrary: fuel)
  case Nil
  then show ?case by simp
next
  case (Cons T names)
  from Cons.prems(2) obtain f where fuel: "fuel = Suc (Suc (Suc f))" and f: "3 * length names \<le> f"
    by (cases fuel; cases "fuel - 1"; cases "fuel - 2") auto
  from Cons.prems(1) have T: "T \<noteq> ''int''" "T \<noteq> ''MLMODEL_DECLARE_TEST''" "T \<noteq> ''MLMODEL_TEST''"
      "T \<noteq> ''(''" "T \<noteq> '')''" "T \<noteq> '',''"
    and rest: "\<forall>T\<in>set names. T \<noteq> ''int'' \<and> T \<noteq> ''MLMODEL_DECLARE_TEST''
                 \<and> T \<noteq> ''MLMODEL_TEST'' \<and> T \<noteq> ''('' \<and> T \<noteq> '')'' \<and> T \<noteq> '',''"
    by auto
  from Cons.IH [OF rest f] obtain out
    where out: "expand env f (map (\<lambda>t. (t, [])) (concat (map invocation names))) = Inr out"
      and fst: "map fst out = concat (map long_declaration names)"
    by blast
  show ?case
    using expand_invocation_long [OF assms(1) T, of f "map (\<lambda>t. (t, [])) (concat (map invocation names))"]
    by (simp add: fuel out fst long_declaration_def [of T])
qed

lemma output_with_int_macro:
  "include_MLModelTests 1020 [''int'' \<mapsto> Object_like [''long'']]
     = Inr (concat (map long_declaration test_names),
            [''int'' \<mapsto> Object_like [''long''],
             ''MLMODEL_DECLARE_TEST'' \<mapsto> DECLARE_TEST_default])"
proof -
  let ?env = "[''int'' \<mapsto> Object_like [''long'']]"
  have e2: "(after_ifndef ?env)(''MLMODEL_TEST'' \<mapsto> TEST_declares)
              = [''int'' \<mapsto> Object_like [''long''],
                 ''MLMODEL_DECLARE_TEST'' \<mapsto> DECLARE_TEST_default,
                 ''MLMODEL_TEST'' \<mapsto> TEST_declares]"
    by (simp add: after_ifndef_def)
  have "\<forall>T\<in>set test_names. T \<noteq> ''int'' \<and> T \<noteq> ''MLMODEL_DECLARE_TEST'' \<and> T \<noteq> ''MLMODEL_TEST''
           \<and> T \<noteq> ''('' \<and> T \<noteq> '')'' \<and> T \<noteq> '',''"
    using test_names_plain test_names_not_keywords by blast
  from expand_invocations_long [OF e2 this, of 1020] obtain out
    where out: "expand ((after_ifndef ?env)(''MLMODEL_TEST'' \<mapsto> TEST_declares)) 1020
                  (map (\<lambda>t. (t, [])) (concat (map invocation test_names))) = Inr out"
      and fst: "map fst out = concat (map long_declaration test_names)"
    by (auto simp: length_test_names)
  from include_via_expand [OF _ out] show ?thesis
    by (simp add: include_MLModelTests_def MLModelTests_hpp_def fst after_ifndef_def)
qed

text \<open>
  C10 as stated fails where the amended claim asks for more than MLMODEL_RUN_TEST being
  undefined; in each of the three cases below MLMODEL_RUN_TEST is not defined.
  The guard \<^verbatim>\<open>#ifndef MLMODEL_DECLARE_TEST\<close> keeps a definition made by the including
  file: after \<^verbatim>\<open>#define MLMODEL_DECLARE_TEST(x) void x(void);\<close> every test expands to
  \<^verbatim>\<open>void T(void);\<close>. A listed name that is itself a macro is replaced: after
  \<^verbatim>\<open>#define testBasicSaveLoad renamed\<close> the first declaration is
  \<^verbatim>\<open>int renamed();\<close>. And after \<^verbatim>\<open>#define int long\<close> every test expands to
  \<^verbatim>\<open>long T();\<close>.
\<close>

theorem predefined_macros_counterexample:
  "[''MLMODEL_DECLARE_TEST'' \<mapsto>
      Function_like [''x''] [''void'', ''x'', ''('', ''void'', '')'', '';'']]
     ''MLMODEL_RUN_TEST'' = None
   \<and> hd test_names = ''testBasicSaveLoad''
   \<and> include_MLModelTests 680
        [''MLMODEL_DECLARE_TEST'' \<mapsto>
           Function_like [''x''] [''void'', ''x'', ''('', ''void'', '')'', '';'']]
       = Inr (concat (map void_declaration test_names),
              [''MLMODEL_DECLARE_TEST'' \<mapsto>
                 Function_like [''x''] [''void'', ''x'', ''('', ''void'', '')'', '';'']])
   \<and> concat (map void_declaration test_names)
       \<noteq> concat (map forward_declaration test_names)
   \<and> include_MLModelTests 680 [''testBasicSaveLoad'' \<mapsto> Object_like [''renamed'']]
       = Inr ([''int'', ''renamed'', ''('', '')'', '';'']
                @ concat (map forward_declaration (tl test_names)),
              [''testBasicSaveLoad'' \<mapsto> Object_like [''renamed''],
               ''MLMODEL_DECLARE_TEST'' \<mapsto> DECLARE_TEST_default])
   \<and> [''int'', ''renamed'', ''('', '')'', '';''] @ concat (map forward_declaration (tl test_names))
       \<noteq> concat (map forward_declaration test_names)
   \<and> include_MLModelTests 1020 [''int'' \<mapsto> Object_like [''long'']]
       = Inr (concat (map long_declaration test_names),
              [''int'' \<mapsto> Object_like [''long''],
               ''MLMODEL_DECLARE_TEST'' \<mapsto> DECLARE_TEST_default])
   \<and> concat (map long_declaration test_names)
       \<noteq> concat (map forward_declaration test_names)"
proof -
  from test_names_first obtain names where n: "test_names = ''testBasicSaveLoad'' # names" by blast
  show ?thesis
    by (simp add: output_with_void_DECLARE_TEST output_with_renamed_test output_with_int_macro)
       (simp add: n forward_declaration_def void_declaration_def long_declaration_def)
qed

section \<open>Properties of Span: packed 4-bit elements\<close>

lemma fifteen_is_mask: "(15::byte) = mask 4"
  by (simp add: mask_eq_exp_minus_1)

text \<open>On one byte: the four bits written at a shift are the four bits read back there.\<close>

lemma nibble_put_get:
  fixes b v :: byte
  assumes "sh = 0 \<or> sh = 4"
  shows "drop_bit sh ((b AND NOT (push_bit sh 15)) OR push_bit sh (v AND 15)) AND 15 = v AND 15"
  unfolding fifteen_is_mask
  by (rule bit_word_eqI) (use assms in \<open>auto simp: bit_simps\<close>)

text \<open>On one byte: writing one half leaves the other half as it was.\<close>

lemma nibble_put_get_other:
  fixes b v :: byte
  assumes "sh = 0 \<or> sh = 4" and "sh' = 0 \<or> sh' = 4" and "sh \<noteq> sh'"
  shows "drop_bit sh' ((b AND NOT (push_bit sh 15)) OR push_bit sh (v AND 15)) AND 15
           = drop_bit sh' b AND 15"
  unfolding fifteen_is_mask
  by (rule bit_word_eqI) (use assms in \<open>auto simp: bit_simps\<close>)

lemma bitShift_cases: "4 * (e mod 2) = (0::nat) \<or> 4 * (e mod 2) = 4"
  by (cases "e mod 2 = 0") auto

lemma write_nibble_succeeds:
  "e div 2 < length buf \<Longrightarrow>
   \<exists>buf'. write_nibble buf e v = Inr buf' \<and> length buf' = length buf"
  by (simp add: write_nibble_def subbyte_address_def)

lemma read_nibble_written:
  assumes "write_nibble buf e v = Inr buf'"
  shows "read_nibble buf' e = Inr (v AND 15)"
  using assms nibble_put_get [OF bitShift_cases, of e "buf ! (e div 2)" v]
  by (auto simp: write_nibble_def read_nibble_def subbyte_address_def split: if_splits)

lemma read_nibble_elsewhere:
  assumes "write_nibble buf e v = Inr buf'" and "e' \<noteq> e"
  shows "read_nibble buf' e' = read_nibble buf e'"
proof (cases "e' div 2 = e div 2")
  case True
  with assms(2) have "e' mod 2 \<noteq> e mod 2"
    by (metis div_mult_mod_eq)
  then have "4 * (e mod 2) \<noteq> 4 * (e' mod 2)" by simp
  from nibble_put_get_other [OF bitShift_cases bitShift_cases this, of "buf ! (e div 2)" v]
    assms(1) True
  show ?thesis
    by (auto simp: write_nibble_def read_nibble_def subbyte_address_def split: if_splits)
next
  case False
  with assms(1) show ?thesis
    by (auto simp: write_nibble_def read_nibble_def subbyte_address_def split: if_splits)
qed

lemma signed_nibble_values:
  "- 8 \<le> v \<Longrightarrow> v \<le> 7 \<Longrightarrow>
   v \<in> {- 8, - 7, - 6, - 5, - 4, - 3, - 2, - 1, 0, 1, 2, 3, 4, 5, 6, 7 :: int}"
  by simp arith

lemma unsigned_nibble_values:
  "0 \<le> v \<Longrightarrow> v \<le> 15 \<Longrightarrow>
   v \<in> {0, 1, 2, 3, 4, 5, 6, 7, 8, 9, 10, 11, 12, 13, 14, 15 :: int}"
  by simp arith

lemma decode_encode_signed:
  "- 8 \<le> v \<Longrightarrow> v \<le> 7 \<Longrightarrow> decode_nibble Int4 (encode_nibble v) = v"
  by (drule (1) signed_nibble_values) (auto simp: decode_nibble_def encode_nibble_def)

lemma decode_encode_unsigned:
  "0 \<le> v \<Longrightarrow> v \<le> 15 \<Longrightarrow> decode_nibble UInt4 (encode_nibble v) = v"
  by (drule (1) unsigned_nibble_values) (auto simp: decode_nibble_def encode_nibble_def)

lemma decode_encode_nibble:
  "dtype s = Int4 \<or> dtype s = UInt4 \<Longrightarrow> nibble_range (dtype s) v \<Longrightarrow>
   decode_nibble (dtype s) (encode_nibble v AND 15) = v"
  by (auto simp: nibble_range_def encode_nibble_def decode_encode_signed [unfolded encode_nibble_def]
      decode_encode_unsigned [unfolded encode_nibble_def])

text \<open>
  C2: through a span of a 4-bit type (signed or unsigned), at every index of the span
  whose element lies in the buffer: writing a value \<open>v\<close> of the type's range
  (\<open>[-8, 7]\<close> signed, \<open>[0, 15]\<close> unsigned) succeeds and reading the same index then
  returns \<open>v\<close>. Every other 4-bit position of the buffer reads as before, the other
  half of the written byte included, and so does every index of the span that resolves
  to another position.
\<close>

theorem subbyte_write_then_read:
  assumes ty: "dtype s = Int4 \<or> dtype s = UInt4"
    and pos: "element_position s idx = Inr e"
    and inb: "e div 2 < length buf"
    and v: "nibble_range (dtype s) v"
  shows "\<exists>buf'. setValueAt s buf idx v = Inr buf'
           \<and> length buf' = length buf
           \<and> valueAt s buf' idx = Inr v
           \<and> (\<forall>p. p \<noteq> e \<longrightarrow> read_nibble buf' p = read_nibble buf p)
           \<and> (\<forall>idx' e'. element_position s idx' = Inr e' \<and> e' \<noteq> e \<longrightarrow>
                  valueAt s buf' idx' = valueAt s buf idx')"
proof -
  from ty have w: "bit_width (dtype s) = 4" by auto
  from write_nibble_succeeds [OF inb] obtain buf'
    where wr: "write_nibble buf e (encode_nibble v) = Inr buf'"
      and len: "length buf' = length buf" by blast
  have set: "setValueAt s buf idx v = Inr buf'"
    using wr by (simp add: setValueAt_def w pos)
  have same: "valueAt s buf' idx = Inr v"
    using read_nibble_written [OF wr] decode_encode_nibble [OF ty v]
    by (simp add: valueAt_def w pos)
  have other: "read_nibble buf' p = read_nibble buf p" if "p \<noteq> e" for p
    using read_nibble_elsewhere [OF wr that] .
  have others: "valueAt s buf' idx' = valueAt s buf idx'"
    if "element_position s idx' = Inr e' \<and> e' \<noteq> e" for idx' e'
    using that other [of e'] by (simp add: valueAt_def w)
  from set len same others other show ?thesis by blast
qed

text \<open>
  The theorem at spans of four elements over the bytes AB CD (hexadecimal). Signed:
  writing -3 at index 1 turns the first byte into DB; index 1 then reads -3 and index 0,
  the other half of that byte, still reads -5. Unsigned: writing 9 at index 2 turns the
  second byte into C9; index 2 then reads 9 and index 3 still reads 12.
\<close>

theorem subbyte_write_then_read_witness:
  "(let s = \<lparr>dtype = Int4, base = 0, shape = [4], strides = [1]\<rparr>;
        u = \<lparr>dtype = UInt4, base = 0, shape = [4], strides = [1]\<rparr>;
        buf = [0xAB, 0xCD]
    in element_position s [1] = Inr 1 \<and> nibble_range (dtype s) (- 3)
       \<and> setValueAt s buf [1] (- 3) = Inr [0xDB, 0xCD]
       \<and> valueAt s [0xDB, 0xCD] [1] = Inr (- 3)
       \<and> valueAt s [0xDB, 0xCD] [0] = valueAt s buf [0]
       \<and> valueAt s buf [0] = Inr (- 5)
       \<and> element_position u [2] = Inr 2 \<and> nibble_range (dtype u) 9
       \<and> setValueAt u buf [2] 9 = Inr [0xAB, 0xC9]
       \<and> valueAt u [0xAB, 0xC9] [2] = Inr 9
       \<and> valueAt u [0xAB, 0xC9] [3] = valueAt u buf [3]
       \<and> valueAt u buf [3] = Inr 12)"
  using subbyte_write_then_read
      [of "\<lparr>dtype = Int4, base = 0, shape = [4], strides = [1]\<rparr>" "[1]" 1 "[0xAB, 0xCD]" "- 3"]
    subbyte_write_then_read
      [of "\<lparr>dtype = UInt4, base = 0, shape = [4], strides = [1]\<rparr>" "[2]" 2 "[0xAB, 0xCD]" 9]
  by (simp add: nibble_range_def setValueAt_def write_nibble_def subbyte_address_def
      element_position_def encode_nibble_def valueAt_def read_nibble_def decode_nibble_def)

section \<open>Properties of Span: slicing\<close>

lemma slice_again:
  assumes "sliceBounded s d lo hi = Inr s'"
  shows "sliceBounded s' d 0 (hi - lo) = Inr s'"
  using assms by (auto simp: sliceBounded_def split: if_splits)

lemma slice_keeps_valid:
  assumes "sliceBounded s d lo hi = Inr s'" and "span_valid s"
  shows "span_valid s'"
  using assms by (auto simp: sliceBounded_def span_valid_def split: if_splits)

lemma slice_extent:
  assumes "sliceBounded s d lo hi = Inr s'"
  shows "shape s' ! d = hi - lo"
  using assms by (auto simp: sliceBounded_def split: if_splits)

lemma slice_zero_length:
  assumes "sliceBounded s d lo lo = Inr s'"
  shows "span_empty s'"
  using assms by (auto simp: sliceBounded_def span_empty_def set_update_memI split: if_splits)

text \<open>
  A slice is a view of the same elements: index \<open>i\<close> of the sliced dimension is
  index \<open>i + lo\<close> of the original.
\<close>

lemma sum_list_index_shift:
  "d < length idx \<Longrightarrow> length idx = length ks \<Longrightarrow>
   sum_list (map2 (\<lambda>i k. i * k) (idx[d := idx ! d + lo]) ks)
     = sum_list (map2 (\<lambda>i k. i * k) idx ks) + lo * (ks ! d :: nat)"
proof (induction idx arbitrary: d ks)
  case Nil
  then show ?case by simp
next
  case (Cons i idx)
  then obtain k ks' where ks: "ks = k # ks'" by (cases ks) auto
  show ?case
  proof (cases d)
    case 0
    then show ?thesis using ks by (simp add: algebra_simps)
  next
    case (Suc d')
    with Cons ks show ?thesis by simp
  qed
qed

lemma index_shift_in_bounds:
  "d < length idx \<Longrightarrow> length idx = length ns \<Longrightarrow> lo \<le> hi \<Longrightarrow> hi \<le> ns ! d \<Longrightarrow>
   list_all2 (\<lambda>i n. i < n) idx (ns[d := hi - lo]) \<Longrightarrow>
   list_all2 (\<lambda>i n. i < (n::nat)) (idx[d := idx ! d + lo]) ns"
  by (auto simp: list_all2_conv_all_nth nth_list_update)

lemma slice_views_same_elements:
  assumes sl: "sliceBounded s d lo hi = Inr s'" and pos: "element_position s' idx = Inr p"
  shows "element_position s (idx[d := idx ! d + lo]) = Inr p"
proof -
  from sl have c: "d < length (shape s)" "d < length (strides s)" "lo \<le> hi" "hi \<le> shape s ! d"
    and s': "s' = s\<lparr>base := base s + lo * (strides s ! d), shape := (shape s)[d := hi - lo]\<rparr>"
    by (auto simp: sliceBounded_def split: if_splits)
  from pos s' have l: "length idx = length (shape s)" "length (shape s) = length (strides s)"
    and a: "list_all2 (\<lambda>i n. i < n) idx ((shape s)[d := hi - lo])"
    and p: "p = base s + lo * (strides s ! d) + sum_list (map2 (\<lambda>i k. i * k) idx (strides s))"
    by (auto simp: element_position_def split: if_splits)
  from c l have dl: "d < length idx" by simp
  from index_shift_in_bounds [OF dl l(1) c(3) c(4) a] sum_list_index_shift [OF dl, of "strides s" lo] l p
  show ?thesis by (simp add: element_position_def)
qed

text \<open>
  C4: for a span (with as many strides as extents) and a dimension \<open>d\<close> it has:
  if \<open>lo \<le> hi\<close> and \<open>hi\<close> is at most the extent of \<open>d\<close>, slicing \<open>d\<close> to
  \<open>[lo, hi)\<close> succeeds, slicing the result to \<open>[0, hi - lo)\<close> returns that same
  result, the result keeps the span invariant, has extent \<open>hi - lo\<close> and views the
  elements of the original from index \<open>lo\<close> of \<open>d\<close> on, and for \<open>lo = hi\<close> it is
  an empty span; for any other bounds the slice fails with RangeError.
\<close>

theorem slicing_laws:
  assumes "span_valid s" and "d < length (shape s)"
  shows "(lo \<le> hi \<and> hi \<le> shape s ! d \<longrightarrow>
            (\<exists>s'. sliceBounded s d lo hi = Inr s'
                \<and> sliceBounded s' d 0 (hi - lo) = Inr s'
                \<and> span_valid s' \<and> shape s' ! d = hi - lo
                \<and> (\<forall>idx p. element_position s' idx = Inr p \<longrightarrow>
                       element_position s (idx[d := idx ! d + lo]) = Inr p)
                \<and> (lo = hi \<longrightarrow> span_empty s')))
       \<and> (\<not> (lo \<le> hi \<and> hi \<le> shape s ! d) \<longrightarrow> sliceBounded s d lo hi = Inl RangeError)"
proof (intro conjI impI)
  assume b: "lo \<le> hi \<and> hi \<le> shape s ! d"
  with assms obtain s' where sl: "sliceBounded s d lo hi = Inr s'"
    by (auto simp: sliceBounded_def span_valid_def)
  have "lo = hi \<longrightarrow> span_empty s'"
    using sl slice_zero_length by blast
  moreover have "\<forall>idx p. element_position s' idx = Inr p \<longrightarrow>
                   element_position s (idx[d := idx ! d + lo]) = Inr p"
    using slice_views_same_elements [OF sl] by blast
  ultimately show "\<exists>s'. sliceBounded s d lo hi = Inr s'
                \<and> sliceBounded s' d 0 (hi - lo) = Inr s'
                \<and> span_valid s' \<and> shape s' ! d = hi - lo
                \<and> (\<forall>idx p. element_position s' idx = Inr p \<longrightarrow>
                       element_position s (idx[d := idx ! d + lo]) = Inr p)
                \<and> (lo = hi \<longrightarrow> span_empty s')"
    using sl slice_again [OF sl] slice_keeps_valid [OF sl assms(1)] slice_extent [OF sl]
    by blast
next
  assume "\<not> (lo \<le> hi \<and> hi \<le> shape s ! d)"
  then show "sliceBounded s d lo hi = Inl RangeError"
    by (auto simp: sliceBounded_def)
qed

text \<open>
  The theorem at a 5 by 4 span, sliced in its first dimension: \<open>[1, 3)\<close> gives the 2 by
  4 span that starts 4 elements later, and slicing that to \<open>[0, 2)\<close> gives it again;
  \<open>[2, 2)\<close> gives an empty span; \<open>[3, 6)\<close> and \<open>[3, 1)\<close> fail.
\<close>

theorem slicing_laws_witness:
  "(let s = \<lparr>dtype = Float32, base = 0, shape = [5, 4], strides = [4, 1]\<rparr>;
        s' = \<lparr>dtype = Float32, base = 4, shape = [2, 4], strides = [4, 1]\<rparr>
    in span_valid s
       \<and> sliceBounded s 0 1 3 = Inr s' \<and> sliceBounded s' 0 0 2 = Inr s' \<and> span_valid s'
       \<and> element_position s' [1, 2] = Inr 10 \<and> element_position s [2, 2] = Inr 10
       \<and> sliceBounded s 0 2 2
           = Inr \<lparr>dtype = Float32, base = 8, shape = [0, 4], strides = [4, 1]\<rparr>
       \<and> span_empty \<lparr>dtype = Float32, base = 8, shape = [0, 4], strides = [4, 1]\<rparr>
       \<and> sliceBounded s 0 3 6 = Inl RangeError
       \<and> sliceBounded s 0 3 1 = Inl RangeError)"
  using slicing_laws [of "\<lparr>dtype = Float32, base = 0, shape = [5, 4], strides = [4, 1]\<rparr>" 0 1 3]
    slicing_laws [of "\<lparr>dtype = Float32, base = 0, shape = [5, 4], strides = [4, 1]\<rparr>" 0 2 2]
    slicing_laws [of "\<lparr>dtype = Float32, base = 0, shape = [5, 4], strides = [4, 1]\<rparr>" 0 3 6]
    slicing_laws [of "\<lparr>dtype = Float32, base = 0, shape = [5, 4], strides = [4, 1]\<rparr>" 0 3 1]
  by (simp add: span_valid_def sliceBounded_def span_empty_def element_position_def)

section \<open>Properties of MemoryMappedFileReader\<close>

lemma getBytes_view:
  assumes "offset + len \<le> length (mapping r)"
  shows "\<exists>view. getBytes r offset len = Inr view \<and> length view = len
           \<and> (\<forall>i<len. view ! i = mapping r ! (offset + i))"
  using assms by (simp add: getBytes_def)

text \<open>
  C7: opening a missing file fails with FileNotFoundError and opening a file of length
  zero with FileEmptyError. On a file of size \<open>S > 0\<close> the reader opens, and then
  \<open>getBytes(offset, length)\<close> fails with OutOfRangeError if \<open>offset + length\<close>
  exceeds \<open>S\<close>, and otherwise returns a view of \<open>length\<close> bytes whose byte \<open>i\<close> is
  byte \<open>offset + i\<close> of the file.
\<close>

theorem mmap_reader_contract:
  "(fs path = None \<longrightarrow> mmap_open fs path = Inl FileNotFoundError)
   \<and> (fs path = Some [] \<longrightarrow> mmap_open fs path = Inl FileEmptyError)
   \<and> (\<forall>contents. fs path = Some contents \<and> contents \<noteq> [] \<longrightarrow>
         (\<exists>r. mmap_open fs path = Inr r
            \<and> (\<forall>offset len.
                  (length contents < offset + len \<longrightarrow>
                     getBytes r offset len = Inl OutOfRangeError)
                  \<and> (offset + len \<le> length contents \<longrightarrow>
                       (\<exists>view. getBytes r offset len = Inr view \<and> length view = len
                          \<and> (\<forall>i<len. view ! i = contents ! (offset + i)))))))"
proof (intro conjI impI allI)
  assume "fs path = None"
  then show "mmap_open fs path = Inl FileNotFoundError"
    by (simp add: mmap_open_def)
next
  assume "fs path = Some []"
  then show "mmap_open fs path = Inl FileEmptyError"
    by (simp add: mmap_open_def)
next
  fix contents
  assume c: "fs path = Some contents \<and> contents \<noteq> []"
  then have o: "mmap_open fs path = Inr \<lparr>mapping = contents\<rparr>"
    by (simp add: mmap_open_def)
  have "getBytes \<lparr>mapping = contents\<rparr> offset len = Inl OutOfRangeError"
    if "length contents < offset + len" for offset len
    using that by (simp add: getBytes_def)
  moreover have "\<exists>view. getBytes \<lparr>mapping = contents\<rparr> offset len = Inr view \<and> length view = len
                   \<and> (\<forall>i<len. view ! i = contents ! (offset + i))"
    if "offset + len \<le> length contents" for offset len
    using that getBytes_view [of offset len "\<lparr>mapping = contents\<rparr>"] by simp
  ultimately show "\<exists>r. mmap_open fs path = Inr r
            \<and> (\<forall>offset len.
                  (length contents < offset + len \<longrightarrow>
                     getBytes r offset len = Inl OutOfRangeError)
                  \<and> (offset + len \<le> length contents \<longrightarrow>
                       (\<exists>view. getBytes r offset len = Inr view \<and> length view = len
                          \<and> (\<forall>i<len. view ! i = contents ! (offset + i)))))"
    using o by blast
qed

text \<open>
  The contract on a file system with a four-byte file and an empty file: the reads
  inside the four bytes return them, a read that ends past them fails, and the empty
  and the missing file do not open.
\<close>

theorem mmap_reader_contract_witness:
  "(let fs = [''weights.bin'' \<mapsto> [1, 2, 3, 4 :: byte], ''empty.bin'' \<mapsto> []]
    in mmap_open fs ''missing.bin'' = Inl FileNotFoundError
       \<and> mmap_open fs ''empty.bin'' = Inl FileEmptyError
       \<and> mmap_open fs ''weights.bin'' = Inr \<lparr>mapping = [1, 2, 3, 4]\<rparr>
       \<and> getBytes \<lparr>mapping = [1, 2, 3, 4]\<rparr> 1 2 = Inr [2, 3]
       \<and> getBytes \<lparr>mapping = [1, 2, 3, 4]\<rparr> 4 0 = Inr []
       \<and> getBytes \<lparr>mapping = [1, 2, 3, 4]\<rparr> 3 2 = Inl OutOfRangeError)"
  using mmap_reader_contract
      [of "[''weights.bin'' \<mapsto> [1, 2, 3, 4 :: byte], ''empty.bin'' \<mapsto> []]" "''missing.bin''"]
    mmap_reader_contract
      [of "[''weights.bin'' \<mapsto> [1, 2, 3, 4 :: byte], ''empty.bin'' \<mapsto> []]" "''empty.bin''"]
    mmap_reader_contract
      [of "[''weights.bin'' \<mapsto> [1, 2, 3, 4 :: byte], ''empty.bin'' \<mapsto> []]" "''weights.bin''"]
  by (simp add: mmap_open_def getBytes_def)

end
